theory Spec2Isabelle
  imports Main
begin

section \<open>Numbers and constants\<close>

text \<open>
  Every amount handled by the bot is an ethers \<open>BigNumber\<close>: an arbitrary-precision
  integer whose \<open>mul\<close> never wraps and whose \<open>div\<close> truncates. All the amounts that
  reach the code below are decoded from unsigned contract return values (\<open>uint256\<close>
  balances, prices and health factors, \<open>uint8\<close> decimals), so they are modelled as
  \<open>nat\<close>, on which truncating division is \<open>div\<close>.
\<close>

definition WeiPerEther :: nat where
  "WeiPerEther = 1000000000000000000"

definition MaxUint256 :: nat where
  "MaxUint256 = 2 ^ 256 - 1"

text \<open>\<open>utils.parseEther('0.95')\<close>, the health factor below which the whole debt may be closed.\<close>

definition CLOSE_FACTOR_HF_THRESHOLD :: nat where
  "CLOSE_FACTOR_HF_THRESHOLD = 950000000000000000"

definition DEFAULT_LIQUIDATION_CLOSE_FACTOR :: nat where
  "DEFAULT_LIQUIDATION_CLOSE_FACTOR = 5000"

definition MAX_LIQUIDATION_CLOSE_FACTOR :: nat where
  "MAX_LIQUIDATION_CLOSE_FACTOR = 10000"

section \<open>Liquidation sizing\<close>

text \<open>
  The local variable \<open>closeFactor\<close> of \<open>calculateDebtToCover\<close>, as a function of the
  health factor.
\<close>

definition closeFactor :: "nat \<Rightarrow> nat" where
  "closeFactor healthFactor =
     (if healthFactor < CLOSE_FACTOR_HF_THRESHOLD
      then MAX_LIQUIDATION_CLOSE_FACTOR
      else DEFAULT_LIQUIDATION_CLOSE_FACTOR)"

text \<open>\<open>calculateDebtToCover(healthFactor, userDebtBalance)\<close>.\<close>

definition calculateDebtToCover :: "nat \<Rightarrow> nat \<Rightarrow> nat" where
  "calculateDebtToCover healthFactor userDebtBalance =
     userDebtBalance * closeFactor healthFactor div 10000"

text \<open>
  The sizing step of the \<open>main\<close> of \<open>index.js\<close>: the borrower's whole debt balance is
  compared with the debt asset held by the wrapper; no close factor enters. The pair
  returned is \<open>(checkedBal, cover)\<close>; they become the fields \<open>amount\<close> and \<open>debtToCover\<close>
  of \<open>lParam\<close>.
\<close>

definition sizeDebtDirect :: "nat \<Rightarrow> nat \<Rightarrow> nat \<times> nat" where
  "sizeDebtDirect increasedDebtBal debtBalanceInmToken =
     (let checkedBal = (if increasedDebtBal > debtBalanceInmToken
                        then debtBalanceInmToken else increasedDebtBal);
          cover = (if increasedDebtBal > debtBalanceInmToken
                   then debtBalanceInmToken else MaxUint256)
      in (checkedBal, cover))"

section \<open>Arrays\<close>

text \<open>
  \<open>Array.prototype.sort(compare)\<close>. The engine's sort is stable, and every comparator
  below is a consistent ordering (it compares one numeric field), so the result is the
  stable sorted arrangement, which insertion from the right computes: an element is
  placed before the first later element that does not compare below it.
\<close>

fun insertBy :: "('a \<Rightarrow> 'a \<Rightarrow> int) \<Rightarrow> 'a \<Rightarrow> 'a list \<Rightarrow> 'a list" where
  "insertBy compare x [] = [x]"
| "insertBy compare x (y # ys) =
     (if compare x y \<le> 0 then x # y # ys else y # insertBy compare x ys)"

fun arraySort :: "('a \<Rightarrow> 'a \<Rightarrow> int) \<Rightarrow> 'a list \<Rightarrow> 'a list" where
  "arraySort compare [] = []"
| "arraySort compare (x # xs) = insertBy compare x (arraySort compare xs)"

text \<open>\<open>Array.prototype.findIndex\<close>: the first index whose element satisfies \<open>P\<close>, or \<open>-1\<close>.\<close>

fun findIndex :: "('a \<Rightarrow> bool) \<Rightarrow> 'a list \<Rightarrow> int" where
  "findIndex P [] = - 1"
| "findIndex P (x # xs) =
     (if P x then 0 else (let i = findIndex P xs in if i < 0 then - 1 else i + 1))"

section \<open>Health scanner: risk tiers\<close>

text \<open>One decoded \<open>getUserAccountData\<close> result, as \<open>index.js\<close> builds it.\<close>

record healthRecord =
  pool :: string
  user :: string
  healthFactor :: nat

definition unhealthyUsers :: "healthRecord list \<Rightarrow> healthRecord list" where
  "unhealthyUsers allUsersHealthRes =
     filter (\<lambda>userHealth. healthFactor userHealth \<le> WeiPerEther \<and> healthFactor userHealth > 0)
       allUsersHealthRes"

definition compareHealthFactor :: "healthRecord \<Rightarrow> healthRecord \<Rightarrow> int" where
  "compareHealthFactor a b =
     (if healthFactor a < healthFactor b then - 1
      else if healthFactor a > healthFactor b then 1
      else 0)"

definition wideUnhealthyUsers :: "healthRecord list \<Rightarrow> healthRecord list" where
  "wideUnhealthyUsers allUsersHealthRes =
     arraySort compareHealthFactor
       (filter (\<lambda>userHealth. healthFactor userHealth < WeiPerEther * 105 div 100
                            \<and> healthFactor userHealth \<ge> WeiPerEther)
          allUsersHealthRes)"

definition zeroHealthUsers :: "healthRecord list \<Rightarrow> healthRecord list" where
  "zeroHealthUsers allUsersHealthRes =
     filter (\<lambda>userHealth. healthFactor userHealth = 0) allUsersHealthRes"

section \<open>Strings\<close>

text \<open>
  \<open>String.prototype.toLowerCase\<close> on the strings the bot applies it to: contract
  addresses, which are ASCII (\<open>0x\<close> and hexadecimal digits, mixed case when checksummed).
\<close>

definition lowerChar :: "char \<Rightarrow> char" where
  "lowerChar c =
     (let n = (of_char c :: nat) in if 65 \<le> n \<and> n \<le> 90 then char_of (n + 32) else c)"

definition toLowerCase :: "string \<Rightarrow> string" where
  "toLowerCase s = map lowerChar s"

section \<open>Errors\<close>

text \<open>
  What can end a function of the bot other than a return: a \<open>TypeError\<close> raised by the
  engine (a property read on \<open>undefined\<close>, a call of something that is not a
  function), a rejected remote call, the division-by-zero fault of \<open>BigNumber.div\<close>,
  and the invalid-argument error of the ABI coder.
\<close>

datatype error = TypeError | CallFailed | DivisionByZero | InvalidArgument

section \<open>Position resolver\<close>

text \<open>
  One element of the multicall's \<open>returnData\<close>. The bytes are decoded by position:
  \<open>tokenInfos[ind].info\<close> is the \<open>balanceOf\<close> decoding at an even \<open>ind\<close> and the
  \<open>UNDERLYING_ASSET_ADDRESS\<close> decoding at an odd one. The record carries both readings
  of the same bytes; the decode loop below takes the one the position selects.
\<close>

record returnData =
  asBalanceOf :: nat
  asUnderlyingAsset :: string

text \<open>
  An element of \<open>mInfos\<close> or \<open>dInfos\<close>. The source stores the decoded result array in
  \<open>token\<close> and reads \<open>token[0]\<close>; the model stores that address.
\<close>

record holding =
  token :: string
  amount :: nat

text \<open>An element of \<open>tokensWithUnderlying\<close>: \<open>{token, mtoken}\<close>.\<close>

record underlyingEntry =
  utoken :: string
  mtoken :: string

record positions =
  mInfos :: "holding list"
  dInfos :: "holding list"
  tokensWithUnderlying :: "underlyingEntry list"

text \<open>
  The body of the decode loop at index \<open>ii\<close>. Reading \<open>tokenInfos[ii + 1].info\<close> past the
  end of the array is a \<open>TypeError\<close>.
\<close>

definition decodeStep ::
  "string list \<Rightarrow> returnData list \<Rightarrow> nat \<Rightarrow> positions \<Rightarrow> error + positions" where
  "decodeStep mTokens tokenInfos ii st =
     (let selInd = ii mod 2 in
      if selInd = 0 then
        (let detailedInfo = asBalanceOf (tokenInfos ! ii) in
         if detailedInfo > 0 then
           (if ii + 1 < length tokenInfos then
              (if ii < length mTokens * 2 then
                 Inr (st\<lparr>mInfos := mInfos st @
                   [\<lparr>token = asUnderlyingAsset (tokenInfos ! (ii + 1)),
                     amount = detailedInfo\<rparr>]\<rparr>)
               else
                 Inr (st\<lparr>dInfos := dInfos st @
                   [\<lparr>token = asUnderlyingAsset (tokenInfos ! (ii + 1)),
                     amount = detailedInfo\<rparr>]\<rparr>))
            else Inl TypeError)
         else Inr st)
      else if ii < length mTokens * 2 then
        (let detailedInfo = toLowerCase (asUnderlyingAsset (tokenInfos ! ii));
             selInd = findIndex (\<lambda>tokenItem. utoken tokenItem = detailedInfo)
                        (tokensWithUnderlying st)
         in if selInd < 0 then
              Inr (st\<lparr>tokensWithUnderlying := tokensWithUnderlying st @
                [\<lparr>utoken = detailedInfo, mtoken = mTokens ! (ii div 2)\<rparr>]\<rparr>)
            else Inr st)
      else Inr st)"

function decodeLoop ::
  "string list \<Rightarrow> returnData list \<Rightarrow> nat \<Rightarrow> positions \<Rightarrow> error + positions" where
  "decodeLoop mTokens tokenInfos ii st =
     (if ii < length tokenInfos then
        (case decodeStep mTokens tokenInfos ii st of
           Inl e \<Rightarrow> Inl e
         | Inr st' \<Rightarrow> decodeLoop mTokens tokenInfos (ii + 1) st')
      else Inr st)"
  by pat_completeness auto
termination
  by (relation "measure (\<lambda>(mTokens, tokenInfos, ii, st). length tokenInfos - ii)") auto

definition resolvePositions :: "string list \<Rightarrow> returnData list \<Rightarrow> error + positions" where
  "resolvePositions mTokens tokenInfos =
     decodeLoop mTokens tokenInfos 0
       \<lparr>mInfos = [], dInfos = [], tokensWithUnderlying = []\<rparr>"

section \<open>Configuration and remote reads\<close>

text \<open>The entries of \<open>config.contracts\<close> that the code reads.\<close>

record contractsConfig =
  punch_router :: string
  trado_router :: string
  trado_quoter :: string
  agrokitty_router :: string
  wflow :: string

text \<open>
  The result of \<open>agroKittyRouter.findBestPath\<close>, the formatted offer
  \<open>{amounts, adapters, path, gasEstimate}\<close>. Its components are named, as the source
  says of the structure, and an array is truthy even when empty, so the alternatives
  after \<open>||\<close> in \<open>formattedOffer.amounts || formattedOffer[0] || []\<close> and its two
  siblings are never taken. The fields \<open>amounts\<close>, \<open>adapters\<close> and \<open>path\<close> are
  \<open>offerAmounts\<close>, \<open>offerAdapters\<close> and \<open>offerPath\<close> here, apart from the fields of
  a quote.
\<close>

record formattedOffer =
  offerAmounts :: "nat list"
  offerAdapters :: "string list"
  offerPath :: "string list"
  gasEstimate :: nat

text \<open>
  The \<open>path\<close> bytes of a swap: \<open>defaultAbiCoder.encode(["address[]"], [path])\<close>, or
  \<open>solidityPack(["address", "uint24", "address"], [tokenIn, fee, tokenOut])\<close>.
\<close>

datatype swapPath = AddressArray "string list" | PackedV3 string nat string

text \<open>
  Every read of contract state the bot makes, by contract address. \<open>None\<close> is a call
  that rejects (a revert, a missing contract, a transport failure); the code decides
  what a rejected call means.
\<close>

record chain =
  call_balanceOf :: "string \<Rightarrow> string \<Rightarrow> nat option"
  call_decimals :: "string \<Rightarrow> nat option"
  call_getReserveData :: "string \<Rightarrow> string \<Rightarrow> nat option"
  call_ADDRESSES_PROVIDER :: "string \<Rightarrow> string option"
  call_getPriceOracle :: "string \<Rightarrow> string option"
  call_getAssetPrice :: "string \<Rightarrow> string \<Rightarrow> nat option"
  call_getAmountsOut :: "string \<Rightarrow> nat \<Rightarrow> string list \<Rightarrow> nat list option"
  call_quoteExactInput :: "string \<Rightarrow> swapPath \<Rightarrow> nat \<Rightarrow> nat option"
  call_findBestPath :: "string \<Rightarrow> nat \<Rightarrow> string \<Rightarrow> string \<Rightarrow> nat \<Rightarrow> formattedOffer option"

text \<open>
  \<open>call_balanceOf c token holder\<close> is \<open>balanceOf(holder)\<close> on \<open>token\<close>;
  \<open>call_getReserveData c pool asset\<close> is the \<open>configuration.data\<close> word of
  \<open>getReserveData(asset)\<close> on \<open>pool\<close>; \<open>call_getAssetPrice c oracle asset\<close> is
  \<open>getAssetPrice(asset)\<close> on \<open>oracle\<close>; \<open>call_quoteExactInput c quoter path amountIn\<close> is
  the first component of the quoter's result. An address inside a result has been
  decoded by the library and is well-formed.
\<close>

section \<open>Collateral selector\<close>

record reserveConfiguration =
  liquidationBonus :: nat
  usageAsCollateralEnabled :: bool

text \<open>\<open>data.shr(32).and(0xFFFF)\<close>: bits 32 to 47 of the configuration word.\<close>

definition extractLiquidationBonus :: "nat \<Rightarrow> nat" where
  "extractLiquidationBonus configurationData = (configurationData div 2 ^ 32) mod 2 ^ 16"

text \<open>\<open>data.shr(56).and(0x1).eq(1)\<close>: bit 56 of the configuration word.\<close>

definition extractUsageAsCollateralEnabled :: "nat \<Rightarrow> bool" where
  "extractUsageAsCollateralEnabled configurationData =
     ((configurationData div 2 ^ 56) mod 2 = 1)"

definition getReserveConfiguration :: "chain \<Rightarrow> string \<Rightarrow> string \<Rightarrow> reserveConfiguration" where
  "getReserveConfiguration c poolAddress assetAddress =
     (case call_getReserveData c poolAddress assetAddress of
        Some data \<Rightarrow>
          \<lparr>liquidationBonus = extractLiquidationBonus data,
           usageAsCollateralEnabled = extractUsageAsCollateralEnabled data\<rparr>
      | None \<Rightarrow> \<lparr>liquidationBonus = 0, usageAsCollateralEnabled = False\<rparr>)"

text \<open>\<open>getPriceOracleAddress\<close>: \<open>None\<close> is the \<open>null\<close> it returns when either call rejects.\<close>

definition getPriceOracleAddress :: "chain \<Rightarrow> string \<Rightarrow> string option" where
  "getPriceOracleAddress c poolAddress =
     (case call_ADDRESSES_PROVIDER c poolAddress of
        None \<Rightarrow> None
      | Some addressesProviderAddress \<Rightarrow> call_getPriceOracle c addressesProviderAddress)"

text \<open>
  \<open>getAssetPrice\<close>: a missing (or empty, hence falsy) oracle address throws inside the
  \<open>try\<close>, and every failure is answered with \<open>BigNumber.from(0)\<close>.
\<close>

definition getAssetPrice :: "chain \<Rightarrow> string \<Rightarrow> string \<Rightarrow> nat" where
  "getAssetPrice c assetAddress poolAddress =
     (case getPriceOracleAddress c poolAddress of
        None \<Rightarrow> 0
      | Some priceOracleAddress \<Rightarrow>
          (if priceOracleAddress = [] then 0
           else (case call_getAssetPrice c priceOracleAddress assetAddress of
                   Some price \<Rightarrow> price
                 | None \<Rightarrow> 0)))"

definition getTokenDecimals :: "chain \<Rightarrow> string \<Rightarrow> nat" where
  "getTokenDecimals c tokenAddress =
     (case call_decimals c tokenAddress of Some decimals \<Rightarrow> decimals | None \<Rightarrow> 18)"

text \<open>
  An element of \<open>collateralCandidates\<close>. The last two fields are the source's
  \<open>liquidationBonus\<close> and \<open>usageAsCollateralEnabled\<close>, renamed apart from the fields of
  the reserve configuration.
\<close>

record candidate =
  address :: string
  balance :: nat
  price :: nat
  decimals :: nat
  valueUSD :: nat
  candidateLiquidationBonus :: nat
  candidateUsageAsCollateralEnabled :: bool

text \<open>
  The body of the loop of \<open>selectBestCollateralAsset\<close> for one holding: \<open>None\<close> when the
  loop continues without a push. The helpers it calls return defaults instead of
  throwing, so the \<open>catch\<close> of the loop body is not reached by a rejected read.
\<close>

definition evaluateCollateral :: "chain \<Rightarrow> string \<Rightarrow> holding \<Rightarrow> candidate option" where
  "evaluateCollateral c poolAddress mInfo =
     (let oracleDecimals = 8;
          assetAddress = token mInfo;
          assetBalance = amount mInfo;
          reserveConfig = getReserveConfiguration c poolAddress assetAddress
      in if \<not> usageAsCollateralEnabled reserveConfig then None
         else
           (let assetPrice = getAssetPrice c assetAddress poolAddress;
                assetDecimals = getTokenDecimals c assetAddress;
                assetValueUSD =
                  assetPrice * assetBalance div 10 ^ assetDecimals div 10 ^ oracleDecimals
            in Some \<lparr>address = assetAddress, balance = assetBalance, price = assetPrice,
                     decimals = assetDecimals, valueUSD = assetValueUSD,
                     candidateLiquidationBonus = liquidationBonus reserveConfig,
                     candidateUsageAsCollateralEnabled =
                       usageAsCollateralEnabled reserveConfig\<rparr>))"

definition collateralCandidates :: "chain \<Rightarrow> string \<Rightarrow> holding list \<Rightarrow> candidate list" where
  "collateralCandidates c poolAddress infos =
     List.map_filter (evaluateCollateral c poolAddress) infos"

definition compareValueUSD :: "candidate \<Rightarrow> candidate \<Rightarrow> int" where
  "compareValueUSD a b =
     (if valueUSD a > valueUSD b then - 1 else if valueUSD a < valueUSD b then 1 else 0)"

text \<open>\<open>selectBestCollateralAsset\<close>: \<open>None\<close> is the \<open>null\<close> of an empty candidate list.\<close>

definition selectBestCollateralAsset :: "chain \<Rightarrow> string \<Rightarrow> holding list \<Rightarrow> candidate option" where
  "selectBestCollateralAsset c poolAddress infos =
     (let candidates = collateralCandidates c poolAddress infos
      in if length candidates = 0 then None
         else Some (arraySort compareValueUSD candidates ! 0))"

section \<open>Swap route aggregator\<close>

text \<open>What a JavaScript function hands back where an object is expected.\<close>

datatype 'a nullable = Null | Undefined | Value 'a

datatype swapType = UNISWAP_V2 | UNISWAP_V3 | AGRO_KITTY

text \<open>
  The quote object built by the venue adapters and by \<open>getLiquidationSwapParams\<close>.
  \<open>amountOut\<close> is \<open>None\<close> in an object that has no such property.
\<close>

record swapQuote =
  swapType :: swapType
  router :: string
  path :: swapPath
  amountIn :: nat
  amountOut :: "nat option"
  amountOutMin :: nat
  adapters :: "string list"




text \<open>
  \<open>getAgroKittyQuote\<close>. The quote it builds has no \<open>amountOut\<close> property. When
  \<open>findBestPath\<close> rejects, or returns no positive final amount, control leaves the inner
  \<open>try\<close>/\<open>catch\<close> and reaches the end of the function, which returns \<open>undefined\<close>. The
  \<open>adapters\<close> argument only enters the unused \<open>trade\<close> object. Local names that
  coincide with a field of the quote carry a prime.
\<close>

definition getAgroKittyQuote ::
  "chain \<Rightarrow> contractsConfig \<Rightarrow> string \<Rightarrow> string \<Rightarrow> nat \<Rightarrow> string list \<Rightarrow> swapQuote nullable" where
  "getAgroKittyQuote c contracts tokenIn tokenOut amountIn' adapters' =
     (let maxSteps = 4
      in case call_findBestPath c (agrokitty_router contracts) amountIn' tokenIn tokenOut maxSteps of
           None \<Rightarrow> Undefined
         | Some formattedOffer \<Rightarrow>
             (let amounts' = offerAmounts formattedOffer;
                  bestPath = offerPath formattedOffer;
                  bestAdapters = offerAdapters formattedOffer
              in if length amounts' > 0 \<and> amounts' ! (length amounts' - 1) > 0 then
                   Value
                     \<lparr>swapType = AGRO_KITTY, router = agrokitty_router contracts,
                      path = AddressArray bestPath, amountIn = amountIn',
                      amountOut = None,
                      amountOutMin = amounts' ! (length amounts' - 1) * 990 div 1000,
                      adapters = bestAdapters\<rparr>
                 else Undefined))"

text \<open>
  The comparator of the sort in \<open>getBestQuote\<close>, \<open>amountOut\<close> descending. Reading
  \<open>amountOut\<close> of a quote that has none is a \<open>TypeError\<close> in the source; the comparator
  is only called on an array of two or more quotes, and \<open>getBestQuote\<close> sorts an array
  of at most one, so that case is given the value 0 here.
\<close>

definition compareAmountOut :: "swapQuote nullable \<Rightarrow> swapQuote nullable \<Rightarrow> int" where
  "compareAmountOut a b =
     (case (a, b) of
        (Value qa, Value qb) \<Rightarrow>
          (case (amountOut qa, amountOut qb) of
             (Some x, Some y) \<Rightarrow> (if x > y then - 1 else if x < y then 1 else 0)
           | _ \<Rightarrow> 0)
      | _ \<Rightarrow> 0)"

text \<open>
  The part of \<open>getBestQuote\<close> after the adapter call, on the adapter's result: the array
  \<open>[agroKittyQuote]\<close> is filtered with \<open>quote !== null\<close>, sorted, and its first element
  is \<open>bestQuote\<close>. Reading \<open>bestQuote.amountOutMin\<close> for the log line is a \<open>TypeError\<close>
  when \<open>bestQuote\<close> is \<open>undefined\<close>.
\<close>

definition bestOfQuotes :: "swapQuote nullable \<Rightarrow> error + swapQuote nullable" where
  "bestOfQuotes agroKittyQuote =
     (let validQuotes = filter (\<lambda>quote. quote \<noteq> Null) [agroKittyQuote]
      in if length validQuotes = 0 then Inr Null
         else (case arraySort compareAmountOut validQuotes ! 0 of
                 Value bestQuote \<Rightarrow> Inr (Value bestQuote)
               | Undefined \<Rightarrow> Inl TypeError
               | Null \<Rightarrow> Inl TypeError))"

text \<open>\<open>getBestQuote\<close>: the calls of \<open>getV2Quote\<close> and \<open>getV3Quote\<close> are commented out.\<close>

definition getBestQuote ::
  "chain \<Rightarrow> contractsConfig \<Rightarrow> string \<Rightarrow> string \<Rightarrow> nat \<Rightarrow> error + swapQuote nullable" where
  "getBestQuote c contracts tokenIn tokenOut amountIn' =
     bestOfQuotes (getAgroKittyQuote c contracts tokenIn tokenOut amountIn' [])"

record liquidationSwapParams =
  sParamsToRepayLoan :: swapQuote
  sParamsToSendToReceiver :: swapQuote

text \<open>
  \<open>utils.defaultAbiCoder.encode(["address[]"], [path])\<close>. The coder throws an
  invalid-argument error on an element that is not an address. Which strings are
  addresses is decided by the library (length, hexadecimal digits, and the checksum of
  a mixed-case string) and is the parameter \<open>isAddress\<close>.
\<close>

definition encodeAddressArray :: "(string \<Rightarrow> bool) \<Rightarrow> string list \<Rightarrow> error + swapPath" where
  "encodeAddressArray isAddress path' =
     (if list_all isAddress path' then Inr (AddressArray path') else Inl InvalidArgument)"

text \<open>
  The object literal that \<open>getLiquidationSwapParams\<close> writes out four times: a v2 swap
  over the direct path with no minimum output. Building it encodes the path.
\<close>

definition defaultSwapParams ::
  "(string \<Rightarrow> bool) \<Rightarrow> contractsConfig \<Rightarrow> string \<Rightarrow> string \<Rightarrow> nat \<Rightarrow> error + swapQuote" where
  "defaultSwapParams isAddress contracts tokenA tokenB amount' =
     (case encodeAddressArray isAddress [tokenA, tokenB] of
        Inl e \<Rightarrow> Inl e
      | Inr encoded \<Rightarrow>
          Inr \<lparr>swapType = UNISWAP_V2, router = punch_router contracts,
               path = encoded, amountIn = amount',
               amountOut = None, amountOutMin = 0, adapters = []\<rparr>)"

text \<open>
  The \<open>try\<close> block of \<open>getLiquidationSwapParams\<close>. The default objects stand to the
  right of \<open>||\<close> and are built, and their paths encoded, only when the quote to the left
  is missing.
\<close>

definition swapParamsFromQuotes ::
  "(string \<Rightarrow> bool) \<Rightarrow> chain \<Rightarrow> contractsConfig \<Rightarrow> string \<Rightarrow> string \<Rightarrow> nat \<Rightarrow> string \<Rightarrow>
   error + liquidationSwapParams" where
  "swapParamsFromQuotes isAddress c contracts collateralAsset debtAsset collateralAmount
     wflowAddress =
     (case getBestQuote c contracts collateralAsset debtAsset collateralAmount of
        Inl e \<Rightarrow> Inl e
      | Inr repayQuote \<Rightarrow>
          (let debtAmountForReceiver =
                 (case repayQuote of Value q \<Rightarrow> amountOutMin q | _ \<Rightarrow> 0)
           in case (if toLowerCase debtAsset = toLowerCase wflowAddress then
                      (case encodeAddressArray isAddress [debtAsset, wflowAddress] of
                         Inl e \<Rightarrow> Inl e
                       | Inr encoded \<Rightarrow>
                           Inr (Value
                             \<lparr>swapType = UNISWAP_V2, router = punch_router contracts,
                              path = encoded,
                              amountIn = debtAmountForReceiver, amountOut = None,
                              amountOutMin = debtAmountForReceiver, adapters = []\<rparr>))
                    else if debtAmountForReceiver > 0 then
                      getBestQuote c contracts debtAsset wflowAddress debtAmountForReceiver
                    else Inr Null) of
                Inl e \<Rightarrow> Inl e
              | Inr receiverQuote \<Rightarrow>
                  (case (case repayQuote of
                           Value q \<Rightarrow> Inr q
                         | _ \<Rightarrow> defaultSwapParams isAddress contracts collateralAsset
                                  debtAsset collateralAmount) of
                     Inl e \<Rightarrow> Inl e
                   | Inr repayLeg \<Rightarrow>
                       (case (case receiverQuote of
                                Value q \<Rightarrow> Inr q
                              | _ \<Rightarrow> defaultSwapParams isAddress contracts debtAsset
                                       wflowAddress debtAmountForReceiver) of
                          Inl e \<Rightarrow> Inl e
                        | Inr receiverLeg \<Rightarrow>
                            Inr \<lparr>sParamsToRepayLoan = repayLeg,
                                 sParamsToSendToReceiver = receiverLeg\<rparr>))))"

text \<open>
  \<open>getLiquidationSwapParams\<close>: the \<open>try\<close> block, and the \<open>catch\<close> that answers an
  exception by building the two default objects (the receiver leg with \<open>amountIn\<close> 0).
  The handler encodes both paths again; an exception raised there leaves the function.
\<close>

definition getLiquidationSwapParams ::
  "(string \<Rightarrow> bool) \<Rightarrow> chain \<Rightarrow> contractsConfig \<Rightarrow> string \<Rightarrow> string \<Rightarrow> nat \<Rightarrow> string \<Rightarrow>
   error + liquidationSwapParams" where
  "getLiquidationSwapParams isAddress c contracts collateralAsset debtAsset collateralAmount
     wflowAddress =
     (case swapParamsFromQuotes isAddress c contracts collateralAsset debtAsset
             collateralAmount wflowAddress of
        Inr result \<Rightarrow> Inr result
      | Inl error \<Rightarrow>
          (case defaultSwapParams isAddress contracts collateralAsset debtAsset
                  collateralAmount of
             Inl e \<Rightarrow> Inl e
           | Inr repayLeg \<Rightarrow>
               (case defaultSwapParams isAddress contracts debtAsset wflowAddress 0 of
                  Inl e \<Rightarrow> Inl e
                | Inr receiverLeg \<Rightarrow>
                    Inr \<lparr>sParamsToRepayLoan = repayLeg,
                         sParamsToSendToReceiver = receiverLeg\<rparr>)))"

section \<open>Execution: one borrower\<close>

text \<open>
  The liquidation parameters \<open>lParam\<close>. The source's fields \<open>user\<close> and \<open>amount\<close> are
  \<open>liquidatedUser\<close> and \<open>liquidatedAmount\<close> here, apart from the fields of the health
  record and of a holding.
\<close>

record lParam =
  collateralAsset :: string
  debtAsset :: string
  liquidatedUser :: string
  liquidatedAmount :: nat
  transferAmount :: nat
  debtToCover :: nat

text \<open>The swap parameters \<open>sParam\<close> of \<open>index.js\<close>.\<close>

record sParam =
  receiver :: string
  routerV2 :: string
  routerV3 :: string
  quoter :: string
  path1 :: "string list"
  path2 :: "string list"

text \<open>
  How the body of the loop over \<open>unhealthyUsers\<close> ends for one borrower: \<open>execute\<close> was
  called with the parameters (\<open>index.js\<close>); the parameters were assembled and printed
  (the routed \<open>main\<close>, whose \<open>execute\<close> call is commented out); no collateral was
  eligible; no wrapper holds the debt asset (the branch that prints \<open>unexpected\<close>); or
  the borrower has no collateral or no debt.
\<close>

datatype outcome =
    Executed lParam sParam
  | Prepared lParam liquidationSwapParams string
  | NoSuitableCollateral
  | Unexpected
  | NoCollateralOrDebt

text \<open>
  The loop body of the \<open>main\<close> of \<open>index.js\<close> for one borrower, from the multicall's
  \<open>returnData\<close>. A rejected \<open>balanceOf\<close> is not caught and ends \<open>main\<close>.
\<close>

definition liquidate ::
  "chain \<Rightarrow> contractsConfig \<Rightarrow> string \<Rightarrow> string list \<Rightarrow> healthRecord \<Rightarrow> returnData list \<Rightarrow>
   error + outcome" where
  "liquidate c contracts liquidatorAddress mTokens unhealthyUser tokenRes =
     (case resolvePositions mTokens tokenRes of
        Inl e \<Rightarrow> Inl e
      | Inr st \<Rightarrow>
          (if length (mInfos st) > 0 \<and> length (dInfos st) > 0 then
             (let collateralAsset' = token (mInfos st ! 0);
                  debtAsset' = token (dInfos st ! 0)
              in case find (\<lambda>uToken. utoken uToken = toLowerCase debtAsset')
                        (tokensWithUnderlying st) of
                   None \<Rightarrow> Inr Unexpected
                 | Some debtMToken \<Rightarrow>
                     (case call_balanceOf c debtAsset' (mtoken debtMToken) of
                        None \<Rightarrow> Inl CallFailed
                      | Some debtBalanceInmToken \<Rightarrow>
                          (let increasedDebtBal = amount (dInfos st ! 0);
                               sized = sizeDebtDirect increasedDebtBal debtBalanceInmToken
                           in Inr (Executed
                                \<lparr>collateralAsset = collateralAsset', debtAsset = debtAsset',
                                 liquidatedUser = user unhealthyUser,
                                 liquidatedAmount = fst sized, transferAmount = 0,
                                 debtToCover = snd sized\<rparr>
                                \<lparr>receiver = liquidatorAddress,
                                 routerV2 = punch_router contracts,
                                 routerV3 = trado_router contracts,
                                 quoter = trado_quoter contracts,
                                 path1 = [collateralAsset', debtAsset'],
                                 path2 = [debtAsset', wflow contracts]\<rparr>))))
           else Inr NoCollateralOrDebt))"

text \<open>
  \<open>BigNumber.min(a, b)\<close>. The \<open>BigNumber\<close> class of ethers version 5, the version whose
  \<open>utils\<close>, \<open>constants\<close> and \<open>providers\<close> the file imports beside it, has the static
  members \<open>from\<close> and \<open>isBigNumber\<close> and no others: \<open>BigNumber.min\<close> is \<open>undefined\<close>, and
  calling it is a \<open>TypeError\<close>, whatever the arguments.
\<close>

definition BigNumber_min :: "nat \<Rightarrow> nat \<Rightarrow> error + nat" where
  "BigNumber_min a b = Inl TypeError"

text \<open>
  The sizing step of the routed \<open>main\<close> (the one that calls \<open>calculateDebtToCover\<close>):
  \<open>checkedBal\<close> is \<open>BigNumber.min\<close> of the close-factor amount and the debt asset held by
  the wrapper, and \<open>cover\<close> is the sentinel when \<open>checkedBal\<close> equals the close-factor
  amount. The pair returned is \<open>(checkedBal, cover)\<close>.
\<close>

definition sizeDebt :: "nat \<Rightarrow> nat \<Rightarrow> nat \<Rightarrow> error + nat \<times> nat" where
  "sizeDebt healthFactor' userDebtBalance debtBalanceInmToken =
     (let maxDebtToCoverByCloseFactor = calculateDebtToCover healthFactor' userDebtBalance
      in case BigNumber_min maxDebtToCoverByCloseFactor debtBalanceInmToken of
           Inl e \<Rightarrow> Inl e
         | Inr checkedBal \<Rightarrow>
             (let cover = (if checkedBal = maxDebtToCoverByCloseFactor
                           then MaxUint256 else checkedBal)
              in Inr (checkedBal, cover)))"

text \<open>
  The loop body of the routed \<open>main\<close> for one borrower. The exception of the sizing
  step, the division-by-zero fault that \<open>BigNumber.div\<close> raises on a zero collateral
  price, and a rejected \<open>balanceOf\<close> are not caught and end \<open>main\<close>.
\<close>

definition liquidateRouted ::
  "(string \<Rightarrow> bool) \<Rightarrow> chain \<Rightarrow> contractsConfig \<Rightarrow> string list \<Rightarrow> healthRecord \<Rightarrow>
   returnData list \<Rightarrow> error + outcome" where
  "liquidateRouted isAddress c contracts mTokens unhealthyUser tokenRes =
     (case resolvePositions mTokens tokenRes of
        Inl e \<Rightarrow> Inl e
      | Inr st \<Rightarrow>
          (if length (mInfos st) > 0 \<and> length (dInfos st) > 0 then
             (case selectBestCollateralAsset c (pool unhealthyUser) (mInfos st) of
                None \<Rightarrow> Inr NoSuitableCollateral
              | Some bestCollateral \<Rightarrow>
                  (let collateralAsset' = address bestCollateral;
                       debtAsset' = token (dInfos st ! 0)
                   in case find (\<lambda>uToken. utoken uToken = toLowerCase debtAsset')
                             (tokensWithUnderlying st) of
                        None \<Rightarrow> Inr Unexpected
                      | Some debtMToken \<Rightarrow>
                          (case call_balanceOf c debtAsset' (mtoken debtMToken) of
                             None \<Rightarrow> Inl CallFailed
                           | Some debtBalanceInmToken \<Rightarrow>
                               (let userDebtBalance = amount (dInfos st ! 0)
                                in case sizeDebt (healthFactor unhealthyUser)
                                          userDebtBalance debtBalanceInmToken of
                                     Inl e \<Rightarrow> Inl e
                                   | Inr sized \<Rightarrow>
                               (let checkedBal = fst sized;
                                    cover = snd sized;
                                    liquidationBonus' = candidateLiquidationBonus bestCollateral;
                                    collateralPrice = price bestCollateral;
                                    collateralDecimals = decimals bestCollateral;
                                    debtAssetPrice =
                                      getAssetPrice c debtAsset' (pool unhealthyUser);
                                    debtDecimals = getTokenDecimals c debtAsset';
                                    debtToCover' =
                                      (if cover = MaxUint256 then checkedBal else cover)
                                in if collateralPrice = 0 then Inl DivisionByZero
                                   else
                                     (let maxAmountOfCollateralToLiquidate =
                                            debtAssetPrice * debtToCover' * liquidationBonus'
                                              div collateralPrice div 10000
                                              * 10 ^ collateralDecimals div 10 ^ debtDecimals
                                      in case getLiquidationSwapParams isAddress c contracts
                                                collateralAsset' debtAsset'
                                                maxAmountOfCollateralToLiquidate
                                                (wflow contracts) of
                                           Inl e \<Rightarrow> Inl e
                                         | Inr swapParams \<Rightarrow>
                                             Inr (Prepared
                                               \<lparr>collateralAsset = collateralAsset',
                                                debtAsset = debtAsset',
                                                liquidatedUser = user unhealthyUser,
                                                liquidatedAmount = checkedBal,
                                                transferAmount = 0,
                                                debtToCover = cover\<rparr>
                                               swapParams
                                               ''0x55203706a5EdCb1C8A6cc6e273FcB4b49dbe8FD5'')))))))
           else Inr NoCollateralOrDebt))"

section \<open>Example inputs\<close>

text \<open>A chain on which every call rejects, and a configuration.\<close>

definition unreachableChain :: chain where
  "unreachableChain =
     \<lparr>call_balanceOf = (\<lambda>t h. None), call_decimals = (\<lambda>t. None),
      call_getReserveData = (\<lambda>p a. None), call_ADDRESSES_PROVIDER = (\<lambda>p. None),
      call_getPriceOracle = (\<lambda>p. None), call_getAssetPrice = (\<lambda>orc a. None),
      call_getAmountsOut = (\<lambda>r n p. None), call_quoteExactInput = (\<lambda>q p n. None),
      call_findBestPath = (\<lambda>r n a b k. None)\<rparr>"

definition exampleContracts :: contractsConfig where
  "exampleContracts =
     \<lparr>punch_router = ''punch'', trado_router = ''trado'', trado_quoter = ''quoter'',
      agrokitty_router = ''kitty'', wflow = ''0xff''\<rparr>"

text \<open>
  A borrower with collateral \<open>0xab\<close> (balance 5, wrapper \<open>m1\<close>) and debt 1000 in \<open>0xcd\<close>,
  whose wrapper \<open>m2\<close> holds none of it.
\<close>

definition exampleTokenRes :: "returnData list" where
  "exampleTokenRes =
     [\<lparr>asBalanceOf = 5, asUnderlyingAsset = ''''\<rparr>,
      \<lparr>asBalanceOf = 0, asUnderlyingAsset = ''0xab''\<rparr>,
      \<lparr>asBalanceOf = 0, asUnderlyingAsset = ''''\<rparr>,
      \<lparr>asBalanceOf = 0, asUnderlyingAsset = ''0xcd''\<rparr>,
      \<lparr>asBalanceOf = 1000, asUnderlyingAsset = ''''\<rparr>,
      \<lparr>asBalanceOf = 0, asUnderlyingAsset = ''0xcd''\<rparr>]"

definition examplePositions :: positions where
  "examplePositions =
     \<lparr>mInfos = [\<lparr>token = ''0xab'', amount = 5\<rparr>],
      dInfos = [\<lparr>token = ''0xcd'', amount = 1000\<rparr>],
      tokensWithUnderlying =
        [\<lparr>utoken = ''0xab'', mtoken = ''m1''\<rparr>, \<lparr>utoken = ''0xcd'', mtoken = ''m2''\<rparr>]\<rparr>"

definition exampleBorrower :: healthRecord where
  "exampleBorrower = \<lparr>pool = ''pool'', user = ''0xb0'', healthFactor = 900000000000000000\<rparr>"

text \<open>
  A chain on which every asset is eligible collateral with bonus 10500, costs 1 USD
  (8 decimals), has 18 decimals, no wrapper holds any liquidity, and no swap venue
  answers.
\<close>

definition drainedChain :: chain where
  "drainedChain =
     unreachableChain
       \<lparr>call_balanceOf := (\<lambda>t h. Some 0),
        call_decimals := (\<lambda>t. Some 18),
        call_getReserveData := (\<lambda>p a. Some (2 ^ 56 + 10500 * 2 ^ 32)),
        call_ADDRESSES_PROVIDER := (\<lambda>p. Some ''provider''),
        call_getPriceOracle := (\<lambda>p. Some ''oracle''),
        call_getAssetPrice := (\<lambda>orc a. Some 100000000)\<rparr>"

text \<open>
  A chain on which every asset is eligible collateral with bonus 10500 and every price
  and decimals lookup fails.
\<close>

definition pricelessChain :: chain where
  "pricelessChain =
     unreachableChain\<lparr>call_getReserveData := (\<lambda>p a. Some (2 ^ 56 + 10500 * 2 ^ 32))\<rparr>"


definition kittyChain :: chain where
  "kittyChain =
     unreachableChain
       \<lparr>call_findBestPath := (\<lambda>r n a b k. Some
          \<lparr>offerAmounts = [n, 990], offerAdapters = [''adapter''], offerPath = [a, b],
           gasEstimate = 0\<rparr>)\<rparr>"



definition chainHolding :: "nat \<Rightarrow> chain" where
  "chainHolding a = unreachableChain\<lparr>call_balanceOf := (\<lambda>t h. Some a)\<rparr>"

text \<open>
  An address predicate for the examples: \<open>0x\<close> and forty lower-case hexadecimal digits,
  the form the library accepts without consulting a checksum. Three such addresses.
\<close>

definition lowerHexAddress :: "string \<Rightarrow> bool" where
  "lowerHexAddress s =
     (length s = 42 \<and> take 2 s = ''0x''
      \<and> list_all (\<lambda>ch. ch \<in> set ''0123456789abcdef'') (drop 2 s))"

definition collateralToken :: string where
  "collateralToken = ''0x00000000000000000000000000000000000000ab''"

definition debtToken :: string where
  "debtToken = ''0x00000000000000000000000000000000000000cd''"

definition wflowToken :: string where
  "wflowToken = ''0x00000000000000000000000000000000000000ff''"

section \<open>Properties of the sizing step\<close>

lemma closeFactor_cases:
  "closeFactor h = (if h < 950000000000000000 then 10000 else 5000)"
  by (simp add: closeFactor_def CLOSE_FACTOR_HF_THRESHOLD_def
      MAX_LIQUIDATION_CLOSE_FACTOR_def DEFAULT_LIQUIDATION_CLOSE_FACTOR_def)

lemma sizeDebtDirect_amount: "fst (sizeDebtDirect d a) = min d a"
  by (simp add: sizeDebtDirect_def Let_def)

lemma calculateDebtToCover_le: "calculateDebtToCover h d \<le> d"
  by (simp add: calculateDebtToCover_def closeFactor_cases)

text \<open>
  C3. For a health factor \<open>h\<close> with \<open>0 < h < 10^18\<close> and any debt balance \<open>d\<close>, the close
  factor used by \<open>calculateDebtToCover\<close> is 10000 basis points exactly when
  \<open>h < 0.95 * 10^18\<close> and 5000 basis points otherwise, and the result is
  \<open>d * closeFactor div 10000\<close> in truncating integer arithmetic: the whole debt in the
  first case, half of it rounded down in the second.
\<close>

theorem calculateDebtToCover_close_factor:
  assumes "0 < h" and "h < WeiPerEther"
  shows "(closeFactor h = 10000 \<longleftrightarrow> h < 95 * 10 ^ 16)
       \<and> (closeFactor h = 5000 \<longleftrightarrow> \<not> h < 95 * 10 ^ 16)
       \<and> calculateDebtToCover h d = d * closeFactor h div 10000
       \<and> calculateDebtToCover h d = (if h < 95 * 10 ^ 16 then d else d div 2)"
  by (simp add: calculateDebtToCover_def closeFactor_cases)

theorem calculateDebtToCover_close_factor_witness:
  "(0::nat) < 97 * 10 ^ 16 \<and> 97 * 10 ^ 16 < WeiPerEther
   \<and> closeFactor (97 * 10 ^ 16) = 5000 \<and> calculateDebtToCover (97 * 10 ^ 16) 1001 = 500
   \<and> closeFactor (9 * 10 ^ 17) = 10000 \<and> calculateDebtToCover (9 * 10 ^ 17) 1001 = 1001"
  using calculateDebtToCover_close_factor [of "97 * 10 ^ 16" 1001]
    calculateDebtToCover_close_factor [of "9 * 10 ^ 17" 1001]
  by (simp add: WeiPerEther_def)

text \<open>
  The sizing step of the routed \<open>main\<close> ends in the \<open>TypeError\<close> of \<open>BigNumber.min\<close> on
  every input: it yields neither a capped amount nor a \<open>debtToCover\<close>.
\<close>

lemma sizeDebt_throws: "sizeDebt h d a = Inl TypeError"
  by (simp add: sizeDebt_def BigNumber_min_def)

section \<open>Properties of the risk tiers\<close>

lemma insertBy_compareHealthFactor:
  "insertBy compareHealthFactor x ys = insort_key healthFactor x ys"
  by (induction ys) (auto simp: compareHealthFactor_def)

lemma arraySort_compareHealthFactor:
  "arraySort compareHealthFactor xs = sort_key healthFactor xs"
  by (induction xs) (simp_all add: insertBy_compareHealthFactor)

text \<open>
  C9. A decoded health record of the scan is in the liquidatable tier exactly when
  \<open>0 < healthFactor \<le> 10^18\<close>, in the watch tier exactly when
  \<open>10^18 \<le> healthFactor < 1.05 * 10^18\<close>, and in the zeroed tier exactly when
  \<open>healthFactor = 0\<close>; the watch tier is sorted ascending by health factor. A record with
  health factor 0 is never in the liquidatable tier (the list the liquidation loop runs
  over), and a record with a positive health factor below \<open>10^18\<close> is in the liquidatable
  tier and in neither of the other two.
\<close>

theorem health_tiers:
  "(r \<in> set (unhealthyUsers rs) \<longleftrightarrow>
      r \<in> set rs \<and> 0 < healthFactor r \<and> healthFactor r \<le> 10 ^ 18)
   \<and> (r \<in> set (wideUnhealthyUsers rs) \<longleftrightarrow>
      r \<in> set rs \<and> 10 ^ 18 \<le> healthFactor r \<and> healthFactor r < 105 * 10 ^ 16)
   \<and> sorted (map healthFactor (wideUnhealthyUsers rs))
   \<and> (r \<in> set (zeroHealthUsers rs) \<longleftrightarrow> r \<in> set rs \<and> healthFactor r = 0)
   \<and> (healthFactor r = 0 \<longrightarrow>
        r \<notin> set (unhealthyUsers rs) \<and> r \<notin> set (wideUnhealthyUsers rs))
   \<and> (r \<in> set rs \<and> 0 < healthFactor r \<and> healthFactor r < 10 ^ 18 \<longrightarrow>
        r \<in> set (unhealthyUsers rs) \<and> r \<notin> set (zeroHealthUsers rs)
        \<and> r \<notin> set (wideUnhealthyUsers rs))"
  by (auto simp: unhealthyUsers_def wideUnhealthyUsers_def zeroHealthUsers_def
      WeiPerEther_def arraySort_compareHealthFactor)

theorem health_tiers_witness:
  "unhealthyUsers
     [\<lparr>pool = ''p'', user = ''a'', healthFactor = 0\<rparr>,
      \<lparr>pool = ''p'', user = ''b'', healthFactor = 100000000000\<rparr>,
      \<lparr>pool = ''p'', user = ''c'', healthFactor = 1040000000000000000\<rparr>,
      \<lparr>pool = ''p'', user = ''d'', healthFactor = 1000000000000000000\<rparr>]
   = [\<lparr>pool = ''p'', user = ''b'', healthFactor = 100000000000\<rparr>,
      \<lparr>pool = ''p'', user = ''d'', healthFactor = 1000000000000000000\<rparr>]
   \<and> \<lparr>pool = ''p'', user = ''a'', healthFactor = 0\<rparr> \<notin> set (unhealthyUsers
     [\<lparr>pool = ''p'', user = ''a'', healthFactor = 0\<rparr>,
      \<lparr>pool = ''p'', user = ''b'', healthFactor = 100000000000\<rparr>,
      \<lparr>pool = ''p'', user = ''c'', healthFactor = 1040000000000000000\<rparr>,
      \<lparr>pool = ''p'', user = ''d'', healthFactor = 1000000000000000000\<rparr>])
   \<and> wideUnhealthyUsers
     [\<lparr>pool = ''p'', user = ''a'', healthFactor = 0\<rparr>,
      \<lparr>pool = ''p'', user = ''b'', healthFactor = 100000000000\<rparr>,
      \<lparr>pool = ''p'', user = ''c'', healthFactor = 1040000000000000000\<rparr>,
      \<lparr>pool = ''p'', user = ''d'', healthFactor = 1000000000000000000\<rparr>]
   = [\<lparr>pool = ''p'', user = ''d'', healthFactor = 1000000000000000000\<rparr>,
      \<lparr>pool = ''p'', user = ''c'', healthFactor = 1040000000000000000\<rparr>]"
  using health_tiers [of "\<lparr>pool = ''p'', user = ''a'', healthFactor = 0\<rparr>"
     "[\<lparr>pool = ''p'', user = ''a'', healthFactor = 0\<rparr>,
      \<lparr>pool = ''p'', user = ''b'', healthFactor = 100000000000\<rparr>,
      \<lparr>pool = ''p'', user = ''c'', healthFactor = 1040000000000000000\<rparr>,
      \<lparr>pool = ''p'', user = ''d'', healthFactor = 1000000000000000000\<rparr>]"]
  by (simp add: unhealthyUsers_def wideUnhealthyUsers_def WeiPerEther_def
      compareHealthFactor_def)

section \<open>Properties of the position resolver\<close>

declare decodeLoop.simps [simp del]

lemma findIndex_negative_iff: "findIndex P xs < 0 \<longleftrightarrow> (\<forall>x \<in> set xs. \<not> P x)"
  by (induction xs) (auto simp: Let_def)

lemma lower_0xAB: "toLowerCase ''0xAB'' = ''0xab''"
  by code_simp

lemma decodeStep_amounts:
  assumes "decodeStep mTokens tokenInfos ii st = Inr st'"
    and "\<forall>h \<in> set (mInfos st) \<union> set (dInfos st). 0 < amount h"
  shows "\<forall>h \<in> set (mInfos st') \<union> set (dInfos st'). 0 < amount h"
  using assms by (auto simp: decodeStep_def Let_def split: if_splits)

lemma decodeStep_distinct:
  assumes "decodeStep mTokens tokenInfos ii st = Inr st'"
    and "distinct (map utoken (tokensWithUnderlying st))"
  shows "distinct (map utoken (tokensWithUnderlying st'))"
  using assms
  by (auto simp: decodeStep_def Let_def findIndex_negative_iff split: if_splits) blast

lemma decodeStep_keys_mono:
  assumes "decodeStep mTokens tokenInfos ii st = Inr st'"
  shows "set (map utoken (tokensWithUnderlying st))
           \<subseteq> set (map utoken (tokensWithUnderlying st'))"
  using assms by (auto simp: decodeStep_def Let_def split: if_splits)

lemma decodeStep_key_added:
  assumes "decodeStep mTokens tokenInfos ii st = Inr st'"
    and "ii mod 2 = 1" and "ii < length mTokens * 2"
  shows "toLowerCase (asUnderlyingAsset (tokenInfos ! ii))
           \<in> set (map utoken (tokensWithUnderlying st'))"
  using assms
  by (auto simp: decodeStep_def Let_def findIndex_negative_iff split: if_splits
      intro: rev_image_eqI)

lemma decodeLoop_amounts:
  "decodeLoop mTokens tokenInfos ii st = Inr res \<Longrightarrow>
   \<forall>h \<in> set (mInfos st) \<union> set (dInfos st). 0 < amount h \<Longrightarrow>
   \<forall>h \<in> set (mInfos res) \<union> set (dInfos res). 0 < amount h"
proof (induction mTokens tokenInfos ii st rule: decodeLoop.induct)
  case (1 mTokens tokenInfos ii st)
  show ?case
  proof (cases "ii < length tokenInfos")
    case False
    with "1.prems" show ?thesis by (simp add: decodeLoop.simps [of mTokens tokenInfos ii st])
  next
    case True
    with "1.prems"(1) obtain st' where
      step: "decodeStep mTokens tokenInfos ii st = Inr st'"
      and rest: "decodeLoop mTokens tokenInfos (ii + 1) st' = Inr res"
      by (auto simp: decodeLoop.simps [of mTokens tokenInfos ii st] split: sum.splits)
    from decodeStep_amounts [OF step "1.prems"(2)]
    show ?thesis using "1.IH" [OF True step rest] by blast
  qed
qed

lemma decodeLoop_distinct:
  "decodeLoop mTokens tokenInfos ii st = Inr res \<Longrightarrow>
   distinct (map utoken (tokensWithUnderlying st)) \<Longrightarrow>
   distinct (map utoken (tokensWithUnderlying res))"
proof (induction mTokens tokenInfos ii st rule: decodeLoop.induct)
  case (1 mTokens tokenInfos ii st)
  show ?case
  proof (cases "ii < length tokenInfos")
    case False
    with "1.prems" show ?thesis by (simp add: decodeLoop.simps [of mTokens tokenInfos ii st])
  next
    case True
    with "1.prems"(1) obtain st' where
      step: "decodeStep mTokens tokenInfos ii st = Inr st'"
      and rest: "decodeLoop mTokens tokenInfos (ii + 1) st' = Inr res"
      by (auto simp: decodeLoop.simps [of mTokens tokenInfos ii st] split: sum.splits)
    from decodeStep_distinct [OF step "1.prems"(2)]
    show ?thesis using "1.IH" [OF True step rest] by blast
  qed
qed

lemma decodeLoop_keys_mono:
  "decodeLoop mTokens tokenInfos ii st = Inr res \<Longrightarrow>
   set (map utoken (tokensWithUnderlying st)) \<subseteq> set (map utoken (tokensWithUnderlying res))"
proof (induction mTokens tokenInfos ii st rule: decodeLoop.induct)
  case (1 mTokens tokenInfos ii st)
  show ?case
  proof (cases "ii < length tokenInfos")
    case False
    with "1.prems" show ?thesis by (simp add: decodeLoop.simps [of mTokens tokenInfos ii st])
  next
    case True
    with "1.prems"(1) obtain st' where
      step: "decodeStep mTokens tokenInfos ii st = Inr st'"
      and rest: "decodeLoop mTokens tokenInfos (ii + 1) st' = Inr res"
      by (auto simp: decodeLoop.simps [of mTokens tokenInfos ii st] split: sum.splits)
    from decodeStep_keys_mono [OF step] "1.IH" [OF True step rest]
    show ?thesis by blast
  qed
qed

lemma decodeLoop_keys_complete:
  "decodeLoop mTokens tokenInfos ii st = Inr res \<Longrightarrow>
   ii \<le> j \<Longrightarrow> j < length tokenInfos \<Longrightarrow> j mod 2 = 1 \<Longrightarrow> j < length mTokens * 2 \<Longrightarrow>
   toLowerCase (asUnderlyingAsset (tokenInfos ! j))
     \<in> set (map utoken (tokensWithUnderlying res))"
proof (induction mTokens tokenInfos ii st rule: decodeLoop.induct)
  case (1 mTokens tokenInfos ii st)
  from "1.prems" have True: "ii < length tokenInfos" by simp
  with "1.prems"(1) obtain st' where
    step: "decodeStep mTokens tokenInfos ii st = Inr st'"
    and rest: "decodeLoop mTokens tokenInfos (ii + 1) st' = Inr res"
    by (auto simp: decodeLoop.simps [of mTokens tokenInfos ii st] split: sum.splits)
  show ?case
  proof (cases "ii = j")
    case True
    with decodeStep_key_added [OF step] "1.prems" decodeLoop_keys_mono [OF rest]
    show ?thesis by blast
  next
    case False
    with "1.prems"(2) have "ii + 1 \<le> j" by simp
    from "1.IH" [OF True step rest this "1.prems"(3,4,5)] show ?thesis .
  qed
qed

text \<open>
  C5 as stated: a wrapper whose decoded balance is zero contributes no entry to
  \<open>tokensWithUnderlying\<close>. The loop fills \<open>tokensWithUnderlying\<close> from every collateral
  wrapper without looking at its balance: one collateral wrapper \<open>m1\<close> with balance 0 and
  underlying \<open>0xAB\<close> yields no holding and the entry \<open>(0xab, m1)\<close>.
\<close>

theorem resolvePositions_zero_balance_counterexample:
  "resolvePositions [''m1'']
     [\<lparr>asBalanceOf = 0, asUnderlyingAsset = ''''\<rparr>,
      \<lparr>asBalanceOf = 0, asUnderlyingAsset = ''0xAB''\<rparr>]
   = Inr \<lparr>mInfos = [], dInfos = [],
          tokensWithUnderlying = [\<lparr>utoken = ''0xab'', mtoken = ''m1''\<rparr>]\<rparr>"
  by (simp add: resolvePositions_def decodeLoop.simps decodeStep_def lower_0xAB)

text \<open>
  C5, amended. When the decode step of the position resolver returns, no entry of
  \<open>mInfos\<close> or \<open>dInfos\<close> has amount 0 (a wrapper with balance zero contributes no
  holding), the keys of \<open>tokensWithUnderlying\<close> are pairwise distinct, and the lower-cased
  underlying asset of every collateral wrapper is a key of \<open>tokensWithUnderlying\<close>,
  whatever the wrapper's balance.
\<close>

theorem resolvePositions_invariants:
  assumes "resolvePositions mTokens tokenInfos = Inr res"
  shows "(\<forall>h \<in> set (mInfos res) \<union> set (dInfos res). 0 < amount h)
       \<and> distinct (map utoken (tokensWithUnderlying res))
       \<and> (\<forall>k < length mTokens. 2 * k + 1 < length tokenInfos \<longrightarrow>
            toLowerCase (asUnderlyingAsset (tokenInfos ! (2 * k + 1)))
              \<in> set (map utoken (tokensWithUnderlying res)))"
proof (intro conjI allI impI)
  show "\<forall>h \<in> set (mInfos res) \<union> set (dInfos res). 0 < amount h"
    using decodeLoop_amounts [OF assms [unfolded resolvePositions_def]] by simp
  show "distinct (map utoken (tokensWithUnderlying res))"
    using decodeLoop_distinct [OF assms [unfolded resolvePositions_def]] by simp
next
  fix k assume k: "k < length mTokens" and len: "2 * k + 1 < length tokenInfos"
  have "(2 * k + 1) mod 2 = 1" by presburger
  moreover from k have "2 * k + 1 < length mTokens * 2" by simp
  ultimately show "toLowerCase (asUnderlyingAsset (tokenInfos ! (2 * k + 1)))
      \<in> set (map utoken (tokensWithUnderlying res))"
    using decodeLoop_keys_complete [OF assms [unfolded resolvePositions_def] _ len] by simp
qed

lemma resolvePositions_example:
  "resolvePositions [''m1'']
     [\<lparr>asBalanceOf = 0, asUnderlyingAsset = ''''\<rparr>,
      \<lparr>asBalanceOf = 0, asUnderlyingAsset = ''0xAB''\<rparr>,
      \<lparr>asBalanceOf = 7, asUnderlyingAsset = ''''\<rparr>,
      \<lparr>asBalanceOf = 0, asUnderlyingAsset = ''0xAB''\<rparr>]
   = Inr \<lparr>mInfos = [], dInfos = [\<lparr>token = ''0xAB'', amount = 7\<rparr>],
          tokensWithUnderlying = [\<lparr>utoken = ''0xab'', mtoken = ''m1''\<rparr>]\<rparr>"
  by (simp add: resolvePositions_def decodeLoop.simps decodeStep_def lower_0xAB)

theorem resolvePositions_invariants_witness:
  "resolvePositions [''m1'']
     [\<lparr>asBalanceOf = 0, asUnderlyingAsset = ''''\<rparr>,
      \<lparr>asBalanceOf = 0, asUnderlyingAsset = ''0xAB''\<rparr>,
      \<lparr>asBalanceOf = 7, asUnderlyingAsset = ''''\<rparr>,
      \<lparr>asBalanceOf = 0, asUnderlyingAsset = ''0xAB''\<rparr>]
   = Inr \<lparr>mInfos = [], dInfos = [\<lparr>token = ''0xAB'', amount = 7\<rparr>],
          tokensWithUnderlying = [\<lparr>utoken = ''0xab'', mtoken = ''m1''\<rparr>]\<rparr>
   \<and> 0 < amount \<lparr>token = ''0xAB'', amount = (7::nat)\<rparr>
   \<and> distinct (map utoken [\<lparr>utoken = ''0xab'', mtoken = ''m1''\<rparr>])
   \<and> ''0xab'' \<in> set (map utoken [\<lparr>utoken = ''0xab'', mtoken = ''m1''\<rparr>])"
  using resolvePositions_invariants [OF resolvePositions_example] resolvePositions_example
  by simp

section \<open>Properties of the loop body\<close>

lemma lower_0xab: "toLowerCase ''0xab'' = ''0xab''"
  by code_simp

lemma lower_0xcd: "toLowerCase ''0xcd'' = ''0xcd''"
  by code_simp

lemma lower_0xff: "toLowerCase ''0xff'' = ''0xff''"
  by code_simp

lemma resolvePositions_amounts:
  assumes "resolvePositions mTokens tokenInfos = Inr res"
  shows "\<forall>h \<in> set (mInfos res) \<union> set (dInfos res). 0 < amount h"
  using decodeLoop_amounts [OF assms [unfolded resolvePositions_def]] by simp

lemma exampleTokenRes_resolved:
  "resolvePositions [''m1'', ''m2''] exampleTokenRes = Inr examplePositions"
  by (simp add: resolvePositions_def exampleTokenRes_def examplePositions_def
      decodeLoop.simps decodeStep_def lower_0xab lower_0xcd)

lemma examplePositions_debt_wrapper:
  "find (\<lambda>uToken. utoken uToken = toLowerCase (token (dInfos examplePositions ! 0)))
     (tokensWithUnderlying examplePositions)
   = Some \<lparr>utoken = ''0xcd'', mtoken = ''m2''\<rparr>"
  by (simp add: examplePositions_def lower_0xcd)

lemma examplePositions_nonempty:
  "mInfos examplePositions \<noteq> []" "dInfos examplePositions \<noteq> []"
  by (simp_all add: examplePositions_def)

lemma chainHolding_balance:
  "call_balanceOf (chainHolding a) (token (dInfos examplePositions ! 0))
     (mtoken \<lparr>utoken = ''0xcd'', mtoken = ''m2''\<rparr>) = Some a"
  by (simp add: chainHolding_def)

text \<open>
  What the loop body of \<open>index.js\<close> passes to \<open>execute\<close> for a borrower with collateral
  and debt whose debt asset has a wrapper in the index holding \<open>a\<close> of it.
\<close>

lemma liquidate_executes:
  assumes "resolvePositions mTokens tokenRes = Inr st"
    and "mInfos st \<noteq> []" and "dInfos st \<noteq> []"
    and "find (\<lambda>uToken. utoken uToken = toLowerCase (token (dInfos st ! 0)))
           (tokensWithUnderlying st) = Some debtMToken"
    and "call_balanceOf c (token (dInfos st ! 0)) (mtoken debtMToken) = Some a"
  shows "liquidate c contracts liquidatorAddress mTokens u tokenRes
         = Inr (Executed
             \<lparr>collateralAsset = token (mInfos st ! 0), debtAsset = token (dInfos st ! 0),
              liquidatedUser = user u,
              liquidatedAmount = fst (sizeDebtDirect (amount (dInfos st ! 0)) a),
              transferAmount = 0,
              debtToCover = snd (sizeDebtDirect (amount (dInfos st ! 0)) a)\<rparr>
             \<lparr>receiver = liquidatorAddress, routerV2 = punch_router contracts,
              routerV3 = trado_router contracts, quoter = trado_quoter contracts,
              path1 = [token (mInfos st ! 0), token (dInfos st ! 0)],
              path2 = [token (dInfos st ! 0), wflow contracts]\<rparr>)"
  using assms by (simp add: liquidate_def Let_def)

text \<open>
  The loop body of the routed \<open>main\<close>, for the same borrower with an eligible collateral,
  ends in the \<open>TypeError\<close> of its sizing step: no parameters are assembled.
\<close>

lemma liquidateRouted_throws:
  assumes "resolvePositions mTokens tokenRes = Inr st"
    and "mInfos st \<noteq> []" and "dInfos st \<noteq> []"
    and "selectBestCollateralAsset c (pool u) (mInfos st) = Some best"
    and "find (\<lambda>uToken. utoken uToken = toLowerCase (token (dInfos st ! 0)))
           (tokensWithUnderlying st) = Some debtMToken"
    and "call_balanceOf c (token (dInfos st ! 0)) (mtoken debtMToken) = Some a"
  shows "liquidateRouted isAddress c contracts mTokens u tokenRes = Inl TypeError"
  using assms by (simp add: liquidateRouted_def Let_def sizeDebt_throws)

lemma liquidateRouted_example:
  "selectBestCollateralAsset drainedChain (pool exampleBorrower) (mInfos examplePositions)
   = Some \<lparr>address = ''0xab'', balance = 5, price = 100000000, decimals = 18, valueUSD = 0,
            candidateLiquidationBonus = 10500, candidateUsageAsCollateralEnabled = True\<rparr>
   \<and> liquidateRouted isAddress drainedChain exampleContracts [''m1'', ''m2'']
        exampleBorrower exampleTokenRes
     = Inl TypeError"
proof -
  have best: "selectBestCollateralAsset drainedChain (pool exampleBorrower)
                (mInfos examplePositions)
     = Some \<lparr>address = ''0xab'', balance = 5, price = 100000000, decimals = 18,
              valueUSD = 0, candidateLiquidationBonus = 10500,
              candidateUsageAsCollateralEnabled = True\<rparr>"
    by (simp add: selectBestCollateralAsset_def collateralCandidates_def
        List.map_filter_def evaluateCollateral_def getReserveConfiguration_def
        extractLiquidationBonus_def extractUsageAsCollateralEnabled_def getAssetPrice_def
        getPriceOracleAddress_def getTokenDecimals_def drainedChain_def
        unreachableChain_def examplePositions_def exampleBorrower_def Let_def)
  have bal: "call_balanceOf drainedChain (token (dInfos examplePositions ! 0))
               (mtoken \<lparr>utoken = ''0xcd'', mtoken = ''m2''\<rparr>) = Some 0"
    by (simp add: drainedChain_def)
  from liquidateRouted_throws [OF exampleTokenRes_resolved examplePositions_nonempty best
      examplePositions_debt_wrapper bal] best
  show ?thesis by simp
qed




text \<open>
  C2 as stated: the sentinel is returned exactly when the liquidity \<open>a\<close> is below the
  close-factor amount. The code does the opposite. For the borrower with health factor
  0.9 and debt 1000 the close-factor amount is 1000: with 2000 in the wrapper
  \<open>index.js\<close> submits the sentinel although 2000 is not below 1000, and with 500 in the
  wrapper it submits the exact amount 500 although 500 is below 1000.
\<close>

theorem liquidate_sentinel_counterexample:
  "liquidate (chainHolding 2000) exampleContracts ''0x11'' [''m1'', ''m2''] exampleBorrower
     exampleTokenRes
   = Inr (Executed
       \<lparr>collateralAsset = ''0xab'', debtAsset = ''0xcd'', liquidatedUser = ''0xb0'',
        liquidatedAmount = 1000, transferAmount = 0, debtToCover = MaxUint256\<rparr>
       \<lparr>receiver = ''0x11'', routerV2 = ''punch'', routerV3 = ''trado'',
        quoter = ''quoter'', path1 = [''0xab'', ''0xcd''], path2 = [''0xcd'', ''0xff'']\<rparr>)
   \<and> \<not> (2000 < closeFactor (healthFactor exampleBorrower) * 1000 div 10000)
   \<and> liquidate (chainHolding 500) exampleContracts ''0x11'' [''m1'', ''m2''] exampleBorrower
        exampleTokenRes
     = Inr (Executed
         \<lparr>collateralAsset = ''0xab'', debtAsset = ''0xcd'', liquidatedUser = ''0xb0'',
          liquidatedAmount = 500, transferAmount = 0, debtToCover = 500\<rparr>
         \<lparr>receiver = ''0x11'', routerV2 = ''punch'', routerV3 = ''trado'',
          quoter = ''quoter'', path1 = [''0xab'', ''0xcd''], path2 = [''0xcd'', ''0xff'']\<rparr>)
   \<and> 500 < closeFactor (healthFactor exampleBorrower) * 1000 div 10000
   \<and> (500::nat) \<noteq> MaxUint256"
  by (simp add: liquidate_def exampleTokenRes_resolved examplePositions_def lower_0xcd
      chainHolding_def unreachableChain_def exampleContracts_def exampleBorrower_def
      sizeDebtDirect_def closeFactor_cases MaxUint256_def Let_def)

text \<open>
  C2, amended. In the \<open>main\<close> of \<open>index.js\<close>, for a borrower with collateral and debt
  holdings whose debt asset has a wrapper in the index, with a debt balance \<open>d\<close> in the
  \<open>uint256\<close> range and liquidity \<open>a\<close> in that wrapper, the \<open>debtToCover\<close> submitted is
  the \<open>MaxUint256\<close> sentinel if and only if the debt balance is the binding term of
  \<open>min d a\<close>, that is, if and only if \<open>d \<le> a\<close>; when \<open>a < d\<close> it is \<open>a\<close> itself.
\<close>

theorem liquidate_sentinel_iff:
  assumes "resolvePositions mTokens tokenRes = Inr st"
    and "mInfos st \<noteq> []" and "dInfos st \<noteq> []"
    and "find (\<lambda>uToken. utoken uToken = toLowerCase (token (dInfos st ! 0)))
           (tokensWithUnderlying st) = Some debtMToken"
    and "call_balanceOf c (token (dInfos st ! 0)) (mtoken debtMToken) = Some a"
    and "amount (dInfos st ! 0) \<le> MaxUint256"
  shows "\<exists>lp sp. liquidate c contracts liquidatorAddress mTokens u tokenRes
                   = Inr (Executed lp sp)
           \<and> (debtToCover lp = MaxUint256 \<longleftrightarrow> amount (dInfos st ! 0) \<le> a)
           \<and> (a < amount (dInfos st ! 0) \<longrightarrow> debtToCover lp = a)"
  using liquidate_executes [OF assms(1-5), of contracts liquidatorAddress u] assms(6)
  by (auto simp: sizeDebtDirect_def Let_def)

theorem liquidate_sentinel_iff_witness:
  "resolvePositions [''m1'', ''m2''] exampleTokenRes = Inr examplePositions
   \<and> amount (dInfos examplePositions ! 0) = 1000 \<and> (1000::nat) \<le> MaxUint256
   \<and> liquidate (chainHolding 1000) exampleContracts ''0x11'' [''m1'', ''m2''] exampleBorrower
        exampleTokenRes
     = Inr (Executed
         \<lparr>collateralAsset = ''0xab'', debtAsset = ''0xcd'', liquidatedUser = ''0xb0'',
          liquidatedAmount = 1000, transferAmount = 0, debtToCover = MaxUint256\<rparr>
         \<lparr>receiver = ''0x11'', routerV2 = ''punch'', routerV3 = ''trado'',
          quoter = ''quoter'', path1 = [''0xab'', ''0xcd''], path2 = [''0xcd'', ''0xff'']\<rparr>)
   \<and> liquidate (chainHolding 999) exampleContracts ''0x11'' [''m1'', ''m2''] exampleBorrower
        exampleTokenRes
     = Inr (Executed
         \<lparr>collateralAsset = ''0xab'', debtAsset = ''0xcd'', liquidatedUser = ''0xb0'',
          liquidatedAmount = 999, transferAmount = 0, debtToCover = 999\<rparr>
         \<lparr>receiver = ''0x11'', routerV2 = ''punch'', routerV3 = ''trado'',
          quoter = ''quoter'', path1 = [''0xab'', ''0xcd''], path2 = [''0xcd'', ''0xff'']\<rparr>)"
proof -
  have le: "amount (dInfos examplePositions ! 0) \<le> MaxUint256"
    by (simp add: examplePositions_def MaxUint256_def)
  from liquidate_sentinel_iff [OF exampleTokenRes_resolved examplePositions_nonempty
      examplePositions_debt_wrapper chainHolding_balance [of 1000] le,
      of exampleContracts "''0x11''" exampleBorrower]
    liquidate_sentinel_iff [OF exampleTokenRes_resolved examplePositions_nonempty
      examplePositions_debt_wrapper chainHolding_balance [of 999] le,
      of exampleContracts "''0x11''" exampleBorrower]
    exampleTokenRes_resolved
  show ?thesis
    by (simp add: liquidate_def examplePositions_def lower_0xcd chainHolding_def
        unreachableChain_def exampleContracts_def exampleBorrower_def sizeDebtDirect_def
        MaxUint256_def Let_def)
qed

text \<open>
  C4 as stated: with zero liquidity in the debt wrapper the engine short-circuits and
  submits nothing. For the borrower with debt 1000, \<open>index.js\<close> calls \<open>execute\<close> with
  amount 0 and \<open>debtToCover\<close> 0.
\<close>

theorem zero_liquidity_counterexample:
  "call_balanceOf drainedChain ''0xcd'' ''m2'' = Some 0
   \<and> liquidate drainedChain exampleContracts ''0x11'' [''m1'', ''m2''] exampleBorrower
        exampleTokenRes
     = Inr (Executed
         \<lparr>collateralAsset = ''0xab'', debtAsset = ''0xcd'', liquidatedUser = ''0xb0'',
          liquidatedAmount = 0, transferAmount = 0, debtToCover = 0\<rparr>
         \<lparr>receiver = ''0x11'', routerV2 = ''punch'', routerV3 = ''trado'',
          quoter = ''quoter'', path1 = [''0xab'', ''0xcd''], path2 = [''0xcd'', ''0xff'']\<rparr>)"
  by (simp add: liquidate_def exampleTokenRes_resolved examplePositions_def lower_0xcd
      drainedChain_def unreachableChain_def exampleContracts_def exampleBorrower_def
      sizeDebtDirect_def Let_def)

text \<open>
  C4, amended. The \<open>main\<close> of \<open>index.js\<close> has no zero-liquidity guard. For a borrower
  with collateral and debt holdings whose debt asset has a wrapper in the index, when
  that wrapper holds zero liquidity the loop body calls \<open>execute\<close> with amount 0 and
  \<open>debtToCover\<close> 0.
\<close>

theorem zero_liquidity_not_guarded:
  assumes "resolvePositions mTokens tokenRes = Inr st"
    and "mInfos st \<noteq> []" and "dInfos st \<noteq> []"
    and "find (\<lambda>uToken. utoken uToken = toLowerCase (token (dInfos st ! 0)))
           (tokensWithUnderlying st) = Some debtMToken"
    and "call_balanceOf c (token (dInfos st ! 0)) (mtoken debtMToken) = Some 0"
  shows "\<exists>lp sp. liquidate c contracts liquidatorAddress mTokens u tokenRes
                   = Inr (Executed lp sp)
           \<and> liquidatedAmount lp = 0 \<and> debtToCover lp = 0"
proof -
  from assms(3) have "dInfos st ! 0 \<in> set (dInfos st)"
    by (cases "dInfos st") simp_all
  with resolvePositions_amounts [OF assms(1)] have "0 < amount (dInfos st ! 0)"
    by blast
  then have "sizeDebtDirect (amount (dInfos st ! 0)) 0 = (0, 0)"
    by (simp add: sizeDebtDirect_def)
  with liquidate_executes [OF assms, of contracts liquidatorAddress u]
  show ?thesis by simp
qed

theorem zero_liquidity_not_guarded_witness:
  "resolvePositions [''m1'', ''m2''] exampleTokenRes = Inr examplePositions
   \<and> mInfos examplePositions \<noteq> [] \<and> dInfos examplePositions \<noteq> []
   \<and> call_balanceOf drainedChain ''0xcd'' ''m2'' = Some 0
   \<and> liquidate drainedChain exampleContracts ''0x11'' [''m1'', ''m2''] exampleBorrower
        exampleTokenRes
     = Inr (Executed
         \<lparr>collateralAsset = ''0xab'', debtAsset = ''0xcd'', liquidatedUser = ''0xb0'',
          liquidatedAmount = 0, transferAmount = 0, debtToCover = 0\<rparr>
         \<lparr>receiver = ''0x11'', routerV2 = ''punch'', routerV3 = ''trado'',
          quoter = ''quoter'', path1 = [''0xab'', ''0xcd''], path2 = [''0xcd'', ''0xff'']\<rparr>)"
proof -
  have bal: "call_balanceOf drainedChain (token (dInfos examplePositions ! 0))
               (mtoken \<lparr>utoken = ''0xcd'', mtoken = ''m2''\<rparr>) = Some 0"
    by (simp add: drainedChain_def)
  from zero_liquidity_not_guarded [OF exampleTokenRes_resolved examplePositions_nonempty
      examplePositions_debt_wrapper bal, of exampleContracts "''0x11''" exampleBorrower]
    exampleTokenRes_resolved
  show ?thesis
    by (simp add: liquidate_def examplePositions_def lower_0xcd drainedChain_def
        unreachableChain_def exampleContracts_def exampleBorrower_def sizeDebtDirect_def
        Let_def)
qed

section \<open>Properties of the collateral selector\<close>

lemma collateralCandidates_addresses:
  "map address (collateralCandidates c p ms)
   = map token
       (filter (\<lambda>m. usageAsCollateralEnabled (getReserveConfiguration c p (token m))) ms)"
  by (induction ms)
    (simp_all add: collateralCandidates_def List.map_filter_def evaluateCollateral_def Let_def)

text \<open>
  C6 as stated: a failed price or decimals lookup excludes the asset from the candidate
  list. On a chain where the oracle cannot be reached and \<open>decimals\<close> rejects, a holding
  of 5 units of \<open>0xab\<close> is admitted, and selected, with the substitute price 0 and the
  substitute decimals 18.
\<close>

theorem collateral_lookup_failure_counterexample:
  "getPriceOracleAddress pricelessChain ''pool'' = None
   \<and> call_decimals pricelessChain ''0xab'' = None
   \<and> selectBestCollateralAsset pricelessChain ''pool'' [\<lparr>token = ''0xab'', amount = 5\<rparr>]
     = Some \<lparr>address = ''0xab'', balance = 5, price = 0, decimals = 18, valueUSD = 0,
              candidateLiquidationBonus = 10500, candidateUsageAsCollateralEnabled = True\<rparr>"
  by (simp add: selectBestCollateralAsset_def collateralCandidates_def List.map_filter_def
      evaluateCollateral_def getReserveConfiguration_def extractLiquidationBonus_def
      extractUsageAsCollateralEnabled_def getAssetPrice_def getPriceOracleAddress_def
      getTokenDecimals_def pricelessChain_def unreachableChain_def Let_def)

text \<open>
  C6, amended. In the collateral selector a failed reserve-configuration lookup excludes
  the asset from the candidate list; a failed oracle-price lookup (the oracle address
  cannot be obtained, or the price read rejects) admits the asset with price 0 and USD
  value 0; a failed decimals lookup admits it with 18 decimals. The candidates are, in
  order, exactly the holdings whose reserve configuration reports them usable as
  collateral, so no lookup failure aborts the selection.
\<close>

theorem collateral_lookup_failures:
  "(call_getReserveData c p (token m) = None \<longrightarrow> evaluateCollateral c p m = None)
   \<and> (getPriceOracleAddress c p = None \<and> evaluateCollateral c p m = Some cand \<longrightarrow>
        price cand = 0 \<and> valueUSD cand = 0)
   \<and> (getPriceOracleAddress c p = Some orc \<and> call_getAssetPrice c orc (token m) = None
        \<and> evaluateCollateral c p m = Some cand \<longrightarrow>
        price cand = 0 \<and> valueUSD cand = 0)
   \<and> (call_decimals c (token m) = None \<and> evaluateCollateral c p m = Some cand \<longrightarrow>
        decimals cand = 18)
   \<and> map address (collateralCandidates c p ms)
     = map token
         (filter (\<lambda>i. usageAsCollateralEnabled (getReserveConfiguration c p (token i))) ms)"
proof -
  have a: "evaluateCollateral c p m = None" if "call_getReserveData c p (token m) = None"
    using that by (simp add: evaluateCollateral_def getReserveConfiguration_def)
  have b: "price cand = 0 \<and> valueUSD cand = 0"
    if "getPriceOracleAddress c p = None \<and> evaluateCollateral c p m = Some cand"
    using that by (auto simp: evaluateCollateral_def getAssetPrice_def Let_def split: if_splits)
  have b': "price cand = 0 \<and> valueUSD cand = 0"
    if "getPriceOracleAddress c p = Some orc \<and> call_getAssetPrice c orc (token m) = None
        \<and> evaluateCollateral c p m = Some cand"
    using that by (auto simp: evaluateCollateral_def getAssetPrice_def Let_def split: if_splits)
  have d: "decimals cand = 18"
    if "call_decimals c (token m) = None \<and> evaluateCollateral c p m = Some cand"
    using that
    by (auto simp: evaluateCollateral_def getTokenDecimals_def Let_def split: if_splits)
  from a b b' d collateralCandidates_addresses [of c p ms] show ?thesis
    by blast
qed

theorem collateral_lookup_failures_witness:
  "call_getReserveData unreachableChain ''pool'' ''0xab'' = None
   \<and> evaluateCollateral unreachableChain ''pool'' \<lparr>token = ''0xab'', amount = 5\<rparr> = None
   \<and> getPriceOracleAddress pricelessChain ''pool'' = None
   \<and> call_decimals pricelessChain ''0xab'' = None
   \<and> evaluateCollateral pricelessChain ''pool'' \<lparr>token = ''0xab'', amount = 5\<rparr>
     = Some \<lparr>address = ''0xab'', balance = 5, price = 0, decimals = 18, valueUSD = 0,
              candidateLiquidationBonus = 10500, candidateUsageAsCollateralEnabled = True\<rparr>
   \<and> map address (collateralCandidates pricelessChain ''pool''
        [\<lparr>token = ''0xab'', amount = 5\<rparr>]) = [''0xab'']"
  using collateral_lookup_failures [of unreachableChain "''pool''"
      "\<lparr>token = ''0xab'', amount = 5\<rparr>"]
    collateral_lookup_failures [of pricelessChain "''pool''"
      "\<lparr>token = ''0xab'', amount = 5\<rparr>"
      "\<lparr>address = ''0xab'', balance = 5, price = 0, decimals = 18, valueUSD = 0,
        candidateLiquidationBonus = 10500, candidateUsageAsCollateralEnabled = True\<rparr>"
      "''oracle''" "[\<lparr>token = ''0xab'', amount = 5\<rparr>]"]
  by (simp add: evaluateCollateral_def getReserveConfiguration_def
      extractLiquidationBonus_def extractUsageAsCollateralEnabled_def getAssetPrice_def
      getPriceOracleAddress_def getTokenDecimals_def pricelessChain_def
      unreachableChain_def Let_def)

section \<open>Properties of the swap route aggregator\<close>










lemma lowerHexAddress_examples:
  "lowerHexAddress collateralToken" "lowerHexAddress debtToken" "lowerHexAddress wflowToken"
  "\<not> lowerHexAddress ''0xab''"
  by (simp_all add: lowerHexAddress_def collateralToken_def debtToken_def wflowToken_def)

lemma lower_debtToken: "toLowerCase debtToken = debtToken"
  unfolding debtToken_def by code_simp

lemma lower_wflowToken: "toLowerCase wflowToken = wflowToken"
  unfolding wflowToken_def by code_simp

lemma debtToken_not_wflowToken: "debtToken \<noteq> wflowToken"
  by (simp add: debtToken_def wflowToken_def)

lemma defaultSwapParams_addresses:
  assumes "isAddress a" and "isAddress b"
  shows "defaultSwapParams isAddress k a b x
         = Inr \<lparr>swapType = UNISWAP_V2, router = punch_router k, path = AddressArray [a, b],
                amountIn = x, amountOut = None, amountOutMin = 0, adapters = []\<rparr>"
  using assms by (simp add: defaultSwapParams_def encodeAddressArray_def)

text \<open>
  C10 as stated: for every input no exception leaves \<open>getLiquidationSwapParams\<close>. With
  the malformed address \<open>0xab\<close> as collateral asset and no venue answering, the quote
  lookup throws, the handler's own encoding of the default path throws again, and that
  exception leaves the function.
\<close>

theorem getLiquidationSwapParams_malformed_counterexample:
  "\<not> lowerHexAddress ''0xab''
   \<and> getLiquidationSwapParams lowerHexAddress unreachableChain exampleContracts
        ''0xab'' debtToken 1000 wflowToken
     = Inl InvalidArgument"
  by (simp add: lowerHexAddress_examples getLiquidationSwapParams_def
      swapParamsFromQuotes_def getBestQuote_def bestOfQuotes_def getAgroKittyQuote_def
      defaultSwapParams_def encodeAddressArray_def unreachableChain_def)

text \<open>
  C10, amended. For every input whose collateral-asset, debt-asset and WFLOW addresses
  are well-formed addresses, \<open>getLiquidationSwapParams\<close> returns a parameter object: it
  never returns null and no exception leaves it. When no repay quote is obtained the
  repay leg is the default object with \<open>amountOutMin\<close> 0; when a quote lookup throws,
  both legs are default objects with \<open>amountOutMin\<close> 0; when the debt asset is not the
  settlement asset and no receiver quote is obtained, the receiver leg is a default
  object with \<open>amountOutMin\<close> 0; and when the debt asset is the settlement asset
  (addresses equal up to case) the receiver leg is the pass-through object whose
  \<open>amountIn\<close> and \<open>amountOutMin\<close> are the repay leg's \<open>amountOutMin\<close>.
\<close>

theorem getLiquidationSwapParams_total:
  assumes "isAddress ca" and "isAddress da" and "isAddress w"
  shows "\<exists>res. getLiquidationSwapParams isAddress c k ca da n w = Inr res
     \<and> ((\<forall>q. getBestQuote c k ca da n \<noteq> Inr (Value q)) \<longrightarrow>
          defaultSwapParams isAddress k ca da n = Inr (sParamsToRepayLoan res)
          \<and> amountOutMin (sParamsToRepayLoan res) = 0)
     \<and> ((\<exists>e. swapParamsFromQuotes isAddress c k ca da n w = Inl e) \<longrightarrow>
          defaultSwapParams isAddress k ca da n = Inr (sParamsToRepayLoan res)
          \<and> defaultSwapParams isAddress k da w 0 = Inr (sParamsToSendToReceiver res)
          \<and> amountOutMin (sParamsToRepayLoan res) = 0
          \<and> amountOutMin (sParamsToSendToReceiver res) = 0)
     \<and> (toLowerCase da \<noteq> toLowerCase w
          \<and> \<not> (\<exists>rq q. getBestQuote c k ca da n = Inr (Value rq) \<and> 0 < amountOutMin rq
                     \<and> getBestQuote c k da w (amountOutMin rq) = Inr (Value q)) \<longrightarrow>
          (\<exists>x. defaultSwapParams isAddress k da w x = Inr (sParamsToSendToReceiver res))
          \<and> amountOutMin (sParamsToSendToReceiver res) = 0)
     \<and> (toLowerCase da = toLowerCase w \<longrightarrow>
          sParamsToSendToReceiver res
          = \<lparr>swapType = UNISWAP_V2, router = punch_router k, path = AddressArray [da, w],
             amountIn = amountOutMin (sParamsToRepayLoan res), amountOut = None,
             amountOutMin = amountOutMin (sParamsToRepayLoan res), adapters = []\<rparr>)"
proof -
  note defaults = defaultSwapParams_addresses [OF assms(1,2)]
    defaultSwapParams_addresses [OF assms(2,3)]
  have enc: "encodeAddressArray isAddress [da, w] = Inr (AddressArray [da, w])"
    using assms by (simp add: encodeAddressArray_def)
  show ?thesis
  proof (cases "getBestQuote c k ca da n")
    case (Inl e)
    then show ?thesis
      by (simp add: getLiquidationSwapParams_def swapParamsFromQuotes_def defaults)
  next
    case repay: (Inr repayQuote)
    show ?thesis
    proof (cases "toLowerCase da = toLowerCase w")
      case True
      with repay show ?thesis
        by (cases repayQuote)
          (simp_all add: getLiquidationSwapParams_def swapParamsFromQuotes_def
            defaults enc Let_def)
    next
      case False
      show ?thesis
      proof (cases repayQuote)
        case Null
        with repay False show ?thesis
          by (simp add: getLiquidationSwapParams_def swapParamsFromQuotes_def
              defaults Let_def)
      next
        case Undefined
        with repay False show ?thesis
          by (simp add: getLiquidationSwapParams_def swapParamsFromQuotes_def
              defaults Let_def)
      next
        case (Value rq)
        show ?thesis
        proof (cases "0 < amountOutMin rq")
          case zero: False
          with repay False Value show ?thesis
            by (simp add: getLiquidationSwapParams_def swapParamsFromQuotes_def
                defaults Let_def)
        next
          case pos: True
          show ?thesis
          proof (cases "getBestQuote c k da w (amountOutMin rq)")
            case (Inl e)
            with repay False Value pos show ?thesis
              by (simp add: getLiquidationSwapParams_def swapParamsFromQuotes_def
                  defaults Let_def)
          next
            case (Inr receiverQuote)
            with repay False Value pos show ?thesis
              by (cases receiverQuote)
                (simp_all add: getLiquidationSwapParams_def swapParamsFromQuotes_def
                  defaults Let_def)
          qed
        qed
      qed
    qed
  qed
qed

theorem getLiquidationSwapParams_total_witness:
  "lowerHexAddress collateralToken \<and> lowerHexAddress debtToken \<and> lowerHexAddress wflowToken
   \<and> swapParamsFromQuotes lowerHexAddress unreachableChain exampleContracts
        collateralToken debtToken 1000 wflowToken
     = Inl TypeError
   \<and> toLowerCase debtToken \<noteq> toLowerCase wflowToken
   \<and> getLiquidationSwapParams lowerHexAddress unreachableChain exampleContracts
        collateralToken debtToken 1000 wflowToken
     = Inr \<lparr>sParamsToRepayLoan =
              \<lparr>swapType = UNISWAP_V2, router = ''punch'',
               path = AddressArray [collateralToken, debtToken], amountIn = 1000,
               amountOut = None, amountOutMin = 0, adapters = []\<rparr>,
            sParamsToSendToReceiver =
              \<lparr>swapType = UNISWAP_V2, router = ''punch'',
               path = AddressArray [debtToken, wflowToken], amountIn = 0,
               amountOut = None, amountOutMin = 0, adapters = []\<rparr>\<rparr>
   \<and> getLiquidationSwapParams lowerHexAddress kittyChain exampleContracts
        collateralToken wflowToken 1000 wflowToken
     = Inr \<lparr>sParamsToRepayLoan =
              \<lparr>swapType = AGRO_KITTY, router = ''kitty'',
               path = AddressArray [collateralToken, wflowToken], amountIn = 1000,
               amountOut = None, amountOutMin = 980, adapters = [''adapter'']\<rparr>,
            sParamsToSendToReceiver =
              \<lparr>swapType = UNISWAP_V2, router = ''punch'',
               path = AddressArray [wflowToken, wflowToken], amountIn = 980,
               amountOut = None, amountOutMin = 980, adapters = []\<rparr>\<rparr>"
  using getLiquidationSwapParams_total [OF lowerHexAddress_examples(1,2,3),
      of unreachableChain exampleContracts 1000]
    getLiquidationSwapParams_total [OF lowerHexAddress_examples(1,3,3),
      of kittyChain exampleContracts 1000]
  by (simp add: lowerHexAddress_examples getLiquidationSwapParams_def
      swapParamsFromQuotes_def getBestQuote_def bestOfQuotes_def getAgroKittyQuote_def
      defaultSwapParams_def encodeAddressArray_def kittyChain_def unreachableChain_def
      exampleContracts_def lower_debtToken lower_wflowToken debtToken_not_wflowToken
      Let_def)

end
